theory Spec2Isabelle
  imports Complex_Main "HOL-Library.AList" "HOL-Library.Sublist" "HOL-Library.Code_Target_Nat"
begin

section \<open>The product record\<close>

text \<open>
  The dataclass \<open>Producto\<close> of \<open>inventario_app.py\<close>. The field \<open>id\<close> is called
  \<open>id_producto\<close> here, since \<open>id\<close> is the identity function of HOL. Python's unbounded
  \<open>int\<close> is \<open>int\<close>; a \<open>float\<close> price is taken as the real number it denotes (the
  program only stores prices and compares them with zero; NaN and the infinities are left
  out); a \<open>str\<close> is the list of its code points.
\<close>

type_synonym str = "nat list"

text \<open>A literal of ASCII characters as a \<open>str\<close>.\<close>

definition texto :: "string \<Rightarrow> str" where
  "texto s = map of_char s"

record Producto =
  id_producto :: int
  nombre :: str
  cantidad :: int
  precio :: real

definition set_cantidad :: "Producto \<Rightarrow> int \<Rightarrow> Producto" where
  "set_cantidad p nueva_cantidad = p\<lparr>cantidad := nueva_cantidad\<rparr>"

definition set_precio :: "Producto \<Rightarrow> real \<Rightarrow> Producto" where
  "set_precio p nuevo_precio = p\<lparr>precio := nuevo_precio\<rparr>"

section \<open>The SQLite connection\<close>

text \<open>
  The exceptions that can leave a call: \<open>sqlite3.IntegrityError\<close> (a constraint of the
  table fails), \<open>OverflowError\<close> (a Python int bound to a statement does not fit SQLite's
  64-bit INTEGER), \<open>UnicodeEncodeError\<close> (a \<open>str\<close> bound to a statement has no UTF-8
  encoding) and \<open>KeyError\<close> (a dictionary read at a missing key).
\<close>

datatype error = IntegrityError | OverflowError | UnicodeEncodeError | KeyError

text \<open>The calls the program makes on its connection, with their bound parameters.\<close>

datatype sentencia =
    PragmaForeignKeys
  | CreateTableIfNotExists
  | SelectOrderById
  | InsertInto int str int real
  | DeleteWhereId int
  | UpdateCantidad int int
  | UpdatePrecio real int
  | Commit

text \<open>
  A connection to the database file: \<open>archivo\<close> holds the committed rows of table
  \<open>productos\<close> (what a later connection to the same file reads), \<open>vista\<close> the rows as
  this connection sees them, its uncommitted changes included, and \<open>historial\<close> every
  call made on the connection, in order.
\<close>

record conexion =
  archivo :: "Producto list"
  vista :: "Producto list"
  historial :: "sentencia list"

definition connect :: "Producto list \<Rightarrow> conexion" where
  "connect fichero = \<lparr>archivo = fichero, vista = fichero, historial = []\<rparr>"

definition cabe_int64 :: "int \<Rightarrow> bool" where
  "cabe_int64 n \<longleftrightarrow> - 9223372036854775808 \<le> n \<and> n \<le> 9223372036854775807"

text \<open>
  A \<open>str\<close> has a UTF-8 encoding when none of its code points is a surrogate (U+D800 to
  U+DFFF); a number from U+110000 on is no code point at all.
\<close>

definition codificable :: "str \<Rightarrow> bool" where
  "codificable s \<longleftrightarrow> list_all (\<lambda>c. c < 0x110000 \<and> \<not> (0xD800 \<le> c \<and> c \<le> 0xDFFF)) s"

text \<open>
  The effect of one statement on the rows of the table created by
  \<open>_crear_tabla_si_no_existe\<close>: \<open>id INTEGER PRIMARY KEY\<close>,
  \<open>cantidad INTEGER NOT NULL CHECK (cantidad >= 0)\<close>,
  \<open>precio REAL NOT NULL CHECK (precio >= 0)\<close>. The result is an exception, or the new rows
  together with the rows the cursor yields. A statement that fails changes no row. The
  parameters are bound in their order, before the statement runs, and the first that cannot
  be bound decides the exception.
\<close>

fun aplicar :: "sentencia \<Rightarrow> Producto list \<Rightarrow> error + (Producto list \<times> Producto list)" where
  "aplicar PragmaForeignKeys filas = Inr (filas, [])"
| "aplicar CreateTableIfNotExists filas = Inr (filas, [])"
| "aplicar SelectOrderById filas = Inr (filas, sort_key id_producto filas)"
| "aplicar (InsertInto i n c p) filas =
     (if \<not> cabe_int64 i then Inl OverflowError
      else if \<not> codificable n then Inl UnicodeEncodeError
      else if \<not> cabe_int64 c then Inl OverflowError
      else if i \<in> set (map id_producto filas) \<or> c < 0 \<or> p < 0 then Inl IntegrityError
      else Inr (filas @ [\<lparr>id_producto = i, nombre = n, cantidad = c, precio = p\<rparr>], []))"
| "aplicar (DeleteWhereId i) filas =
     (if \<not> cabe_int64 i then Inl OverflowError
      else Inr (filter (\<lambda>r. id_producto r \<noteq> i) filas, []))"
| "aplicar (UpdateCantidad c i) filas =
     (if \<not> cabe_int64 c \<or> \<not> cabe_int64 i then Inl OverflowError
      else if c < 0 \<and> i \<in> set (map id_producto filas) then Inl IntegrityError
      else Inr (map (\<lambda>r. if id_producto r = i then r\<lparr>cantidad := c\<rparr> else r) filas, []))"
| "aplicar (UpdatePrecio p i) filas =
     (if \<not> cabe_int64 i then Inl OverflowError
      else if p < 0 \<and> i \<in> set (map id_producto filas) then Inl IntegrityError
      else Inr (map (\<lambda>r. if id_producto r = i then r\<lparr>precio := p\<rparr> else r) filas, []))"
| "aplicar Commit filas = Inr (filas, [])"

definition execute :: "sentencia \<Rightarrow> conexion \<Rightarrow> conexion \<times> (error + Producto list)" where
  "execute st c =
     (case aplicar st (vista c) of
        Inl e \<Rightarrow> (c\<lparr>historial := historial c @ [st]\<rparr>, Inl e)
      | Inr (filas, cursor) \<Rightarrow> (c\<lparr>vista := filas, historial := historial c @ [st]\<rparr>, Inr cursor))"

definition commit :: "conexion \<Rightarrow> conexion" where
  "commit c = c\<lparr>archivo := vista c, historial := historial c @ [Commit]\<rparr>"

section \<open>The dictionary\<close>

text \<open>
  A Python \<open>dict\<close> keeps its keys in insertion order: it is an association list with
  distinct keys. Storing at a new key appends, storing at a present key replaces the value
  where it stands.
\<close>

type_synonym dict = "(int \<times> Producto) list"

definition dict_contains :: "dict \<Rightarrow> int \<Rightarrow> bool" where
  "dict_contains d k \<longleftrightarrow> k \<in> set (map fst d)"

definition dict_setitem :: "int \<Rightarrow> Producto \<Rightarrow> dict \<Rightarrow> dict" where
  "dict_setitem k v d = AList.update k v d"

definition dict_getitem :: "dict \<Rightarrow> int \<Rightarrow> error + Producto" where
  "dict_getitem d k = (case map_of d k of None \<Rightarrow> Inl KeyError | Some v \<Rightarrow> Inr v)"

definition dict_pop :: "int \<Rightarrow> dict \<Rightarrow> dict" where
  "dict_pop k d = AList.delete k d"

definition dict_values :: "dict \<Rightarrow> Producto list" where
  "dict_values d = map snd d"

section \<open>Strings\<close>

text \<open>
  \<open>str.strip()\<close> removes the characters of \<open>str.isspace()\<close> from both ends.
\<close>

definition isspace :: "nat \<Rightarrow> bool" where
  "isspace c \<longleftrightarrow>
     (0x09 \<le> c \<and> c \<le> 0x0D) \<or> (0x1C \<le> c \<and> c \<le> 0x20) \<or> c = 0x85 \<or> c = 0xA0 \<or>
     c = 0x1680 \<or> (0x2000 \<le> c \<and> c \<le> 0x200A) \<or> c = 0x2028 \<or> c = 0x2029 \<or>
     c = 0x202F \<or> c = 0x205F \<or> c = 0x3000"

definition strip :: "str \<Rightarrow> str" where
  "strip s = rev (dropWhile isspace (rev (dropWhile isspace s)))"

text \<open>
  \<open>str.lower()\<close> reads three tables of the Unicode character database, which belongs to
  the Python runtime and not to the program: the full lowercase mapping of a code point
  (one code point or several), and the properties Cased and Case_Ignorable. They are a
  parameter of the model.
\<close>

record unicode_data =
  to_lower_full :: "nat \<Rightarrow> nat list"
  is_cased :: "nat \<Rightarrow> bool"
  is_case_ignorable :: "nat \<Rightarrow> bool"

text \<open>
  The capital sigma U+03A3 becomes the final sigma U+03C2 when a cased character stands
  before it, case-ignorable characters between them apart, and none stands after it in the
  same way; otherwise it becomes U+03C3. \<open>antes\<close> holds the characters before the sigma,
  the nearest first.
\<close>

definition handle_capital_sigma :: "unicode_data \<Rightarrow> str \<Rightarrow> str \<Rightarrow> nat" where
  "handle_capital_sigma u antes despues =
     (case dropWhile (is_case_ignorable u) antes of
        [] \<Rightarrow> 0x3C3
      | c # _ \<Rightarrow>
          if \<not> is_cased u c then 0x3C3
          else
            (case dropWhile (is_case_ignorable u) despues of
               [] \<Rightarrow> 0x3C2
             | d # _ \<Rightarrow> if is_cased u d then 0x3C3 else 0x3C2))"

fun lower_desde :: "unicode_data \<Rightarrow> str \<Rightarrow> str \<Rightarrow> str" where
  "lower_desde u antes [] = []"
| "lower_desde u antes (c # despues) =
     (if c = 0x3A3 then [handle_capital_sigma u antes despues] else to_lower_full u c)
     @ lower_desde u (c # antes) despues"

definition lower :: "unicode_data \<Rightarrow> str \<Rightarrow> str" where
  "lower u s = lower_desde u [] s"

text \<open>\<open>sub in s\<close> on strings: \<open>sub\<close> occurs in \<open>s\<close> as a contiguous piece.\<close>

fun str_in :: "str \<Rightarrow> str \<Rightarrow> bool" where
  "str_in sub [] \<longleftrightarrow> sub = []"
| "str_in sub (ch # resto) \<longleftrightarrow> prefix sub (ch # resto) \<or> str_in sub resto"

section \<open>The inventory\<close>

text \<open>
  The object state of class \<open>Inventario\<close>: the connection and the dictionary
  \<open>{id: Producto}\<close>. Every method takes the object and returns it with its result, which
  is a value or the exception that leaves the method.

  The dictionary holds the very object the caller passed to \<open>agregar_producto\<close>, and the
  lists returned by the queries hold the dictionary's objects; the model takes products as
  values, which is what the methods themselves see, since no method writes to a product
  other than through the dictionary entry of its key.
\<close>

record Inventario =
  conn :: conexion
  productos :: dict

definition crear_tabla_si_no_existe :: "Inventario \<Rightarrow> Inventario \<times> (error + unit)" where
  "crear_tabla_si_no_existe s =
     (case execute CreateTableIfNotExists (conn s) of
        (c1, Inl e) \<Rightarrow> (s\<lparr>conn := c1\<rparr>, Inl e)
      | (c1, Inr _) \<Rightarrow> (s\<lparr>conn := commit c1\<rparr>, Inr ()))"

definition cargar_desde_bd :: "Inventario \<Rightarrow> Inventario \<times> (error + unit)" where
  "cargar_desde_bd s =
     (case execute SelectOrderById (conn s) of
        (c1, Inl e) \<Rightarrow> (s\<lparr>conn := c1, productos := []\<rparr>, Inl e)
      | (c1, Inr filas) \<Rightarrow>
          (s\<lparr>conn := c1,
             productos := foldl (\<lambda>d p. dict_setitem (id_producto p) p d) [] filas\<rparr>, Inr ()))"

text \<open>\<open>Inventario.__init__\<close>, given the committed rows of the database file it opens.\<close>

definition Inventario_init :: "Producto list \<Rightarrow> error + Inventario" where
  "Inventario_init fichero =
     (case execute PragmaForeignKeys (connect fichero) of
        (c1, Inl e) \<Rightarrow> Inl e
      | (c1, Inr _) \<Rightarrow>
          (case crear_tabla_si_no_existe \<lparr>conn = c1, productos = []\<rparr> of
             (s1, Inl e) \<Rightarrow> Inl e
           | (s1, Inr _) \<Rightarrow>
               (case cargar_desde_bd (s1\<lparr>productos := []\<rparr>) of
                  (s2, Inl e) \<Rightarrow> Inl e
                | (s2, Inr _) \<Rightarrow> Inr s2)))"

definition existe_id :: "Inventario \<Rightarrow> int \<Rightarrow> bool" where
  "existe_id s i = dict_contains (productos s) i"

definition agregar_producto :: "Inventario \<Rightarrow> Producto \<Rightarrow> Inventario \<times> (error + bool)" where
  "agregar_producto s producto =
     (if existe_id s (id_producto producto) then (s, Inr False)
      else
        (case execute (InsertInto (id_producto producto) (nombre producto)
                         (cantidad producto) (precio producto)) (conn s) of
           (c1, Inl IntegrityError) \<Rightarrow> (s\<lparr>conn := c1\<rparr>, Inr False)
         | (c1, Inl e) \<Rightarrow> (s\<lparr>conn := c1\<rparr>, Inl e)
         | (c1, Inr _) \<Rightarrow>
             (s\<lparr>conn := commit c1,
                productos := dict_setitem (id_producto producto) producto (productos s)\<rparr>,
              Inr True)))"

definition eliminar_producto :: "Inventario \<Rightarrow> int \<Rightarrow> Inventario \<times> (error + bool)" where
  "eliminar_producto s i =
     (if \<not> existe_id s i then (s, Inr False)
      else
        (case execute (DeleteWhereId i) (conn s) of
           (c1, Inl e) \<Rightarrow> (s\<lparr>conn := c1\<rparr>, Inl e)
         | (c1, Inr _) \<Rightarrow>
             (s\<lparr>conn := commit c1, productos := dict_pop i (productos s)\<rparr>, Inr True)))"

definition actualizar_cantidad :: "Inventario \<Rightarrow> int \<Rightarrow> int \<Rightarrow> Inventario \<times> (error + bool)" where
  "actualizar_cantidad s i nueva_cantidad =
     (if \<not> existe_id s i then (s, Inr False)
      else
        (case execute (UpdateCantidad nueva_cantidad i) (conn s) of
           (c1, Inl e) \<Rightarrow> (s\<lparr>conn := c1\<rparr>, Inl e)
         | (c1, Inr _) \<Rightarrow>
             (case dict_getitem (productos s) i of
                Inl e \<Rightarrow> (s\<lparr>conn := commit c1\<rparr>, Inl e)
              | Inr p \<Rightarrow>
                  (s\<lparr>conn := commit c1,
                     productos := dict_setitem i (set_cantidad p nueva_cantidad) (productos s)\<rparr>,
                   Inr True))))"

definition actualizar_precio :: "Inventario \<Rightarrow> int \<Rightarrow> real \<Rightarrow> Inventario \<times> (error + bool)" where
  "actualizar_precio s i nuevo_precio =
     (if \<not> existe_id s i then (s, Inr False)
      else
        (case execute (UpdatePrecio nuevo_precio i) (conn s) of
           (c1, Inl e) \<Rightarrow> (s\<lparr>conn := c1\<rparr>, Inl e)
         | (c1, Inr _) \<Rightarrow>
             (case dict_getitem (productos s) i of
                Inl e \<Rightarrow> (s\<lparr>conn := commit c1\<rparr>, Inl e)
              | Inr p \<Rightarrow>
                  (s\<lparr>conn := commit c1,
                     productos := dict_setitem i (set_precio p nuevo_precio) (productos s)\<rparr>,
                   Inr True))))"

definition buscar_por_nombre ::
  "unicode_data \<Rightarrow> Inventario \<Rightarrow> str \<Rightarrow> Inventario \<times> Producto list" where
  "buscar_por_nombre u s nombre_buscado =
     (let nombre_norm = lower u (strip nombre_buscado)
      in (s, filter (\<lambda>p. str_in nombre_norm (lower u (nombre p))) (dict_values (productos s))))"

definition listar_todos :: "Inventario \<Rightarrow> Inventario \<times> Producto list" where
  "listar_todos s = (s, dict_values (productos s))"

text \<open>\<open>cerrar\<close> closes the connection: what stays is the committed content of the file.\<close>

definition cerrar :: "Inventario \<Rightarrow> Producto list" where
  "cerrar s = archivo (conn s)"

section \<open>The example products\<close>

definition ejemplos :: "Producto list" where
  "ejemplos =
     [\<lparr>id_producto = 101, nombre = texto ''Harina 1kg'', cantidad = 20, precio = 2.50\<rparr>,
      \<lparr>id_producto = 102, nombre = texto ''Queso Mozzarella 1kg'', cantidad = 15, precio = 6.00\<rparr>,
      \<lparr>id_producto = 103, nombre = texto ''Salsa de Tomate 500g'', cantidad = 30, precio = 1.80\<rparr>,
      \<lparr>id_producto = 104, nombre = texto ''Or'' @ [0xE9] @ texto ''gano 50g'', cantidad = 40,
         precio = 0.50\<rparr>,
      \<lparr>id_producto = 105, nombre = texto ''Caja para Pizza (mediana)'', cantidad = 200,
         precio = 0.30\<rparr>,
      \<lparr>id_producto = 106, nombre = texto ''Aceite 1L'', cantidad = 10, precio = 3.20\<rparr>,
      \<lparr>id_producto = 107, nombre = texto ''Bebida 1.5L'', cantidad = 50, precio = 1.50\<rparr>,
      \<lparr>id_producto = 108, nombre = texto ''Pepperoni 500g'', cantidad = 12, precio = 4.00\<rparr>]"

text \<open>
  The loop \<open>for p in ejemplos: inventario.agregar_producto(p)\<close>: the result of each call is
  dropped, an exception ends the loop.
\<close>

fun agregar_cada_uno :: "Inventario \<Rightarrow> Producto list \<Rightarrow> Inventario \<times> (error + unit)" where
  "agregar_cada_uno s [] = (s, Inr ())"
| "agregar_cada_uno s (p # ps) =
     (case agregar_producto s p of
        (s1, Inl e) \<Rightarrow> (s1, Inl e)
      | (s1, Inr _) \<Rightarrow> agregar_cada_uno s1 ps)"

text \<open>\<open>cargar_ejemplo_neos\<close>; the line it prints at the end is not part of the model.\<close>

definition cargar_ejemplo_neos :: "Inventario \<Rightarrow> Inventario \<times> (error + unit)" where
  "cargar_ejemplo_neos s =
     (case listar_todos s of
        (s1, todos) \<Rightarrow> if todos \<noteq> [] then (s1, Inr ()) else agregar_cada_uno s1 ejemplos)"

section \<open>Sequences of calls\<close>

text \<open>
  What a caller can do with an inventory, as the menu of \<open>main\<close> does: one method call after
  another. A call that raises leaves the object as the exception found it.
\<close>

datatype llamada =
    Agregar Producto
  | Eliminar int
  | ActualizarCantidad int int
  | ActualizarPrecio int real
  | Buscar str
  | Listar
  | CargarEjemplo

fun llamar :: "unicode_data \<Rightarrow> llamada \<Rightarrow> Inventario \<Rightarrow> Inventario" where
  "llamar u (Agregar p) s = fst (agregar_producto s p)"
| "llamar u (Eliminar i) s = fst (eliminar_producto s i)"
| "llamar u (ActualizarCantidad i c) s = fst (actualizar_cantidad s i c)"
| "llamar u (ActualizarPrecio i v) s = fst (actualizar_precio s i v)"
| "llamar u (Buscar q) s = fst (buscar_por_nombre u s q)"
| "llamar u Listar s = fst (listar_todos s)"
| "llamar u CargarEjemplo s = fst (cargar_ejemplo_neos s)"

fun llamar_todas :: "unicode_data \<Rightarrow> llamada list \<Rightarrow> Inventario \<Rightarrow> Inventario" where
  "llamar_todas u [] s = s"
| "llamar_todas u (l # ls) s = llamar_todas u ls (llamar u l s)"


section \<open>The state of a live inventory\<close>

text \<open>
  The rows of a table with the schema of \<open>_crear_tabla_si_no_existe\<close>: the primary key is
  unique, identifiers and quantities are 64-bit integers, quantities and prices pass their
  CHECK constraints.
\<close>

definition tabla_ok :: "Producto list \<Rightarrow> bool" where
  "tabla_ok filas \<longleftrightarrow>
     distinct (map id_producto filas) \<and>
     (\<forall>r \<in> set filas. cabe_int64 (id_producto r) \<and> cabe_int64 (cantidad r) \<and>
                      0 \<le> cantidad r \<and> 0 \<le> precio r)"

text \<open>
  The dictionary mirrors the table: every row is filed under its identifier and the
  dictionary holds nothing else.
\<close>

definition refleja :: "dict \<Rightarrow> Producto list \<Rightarrow> bool" where
  "refleja d filas \<longleftrightarrow>
     distinct (map fst d) \<and> set d = set (map (\<lambda>r. (id_producto r, r)) filas)"

text \<open>
  Between two calls nothing is left uncommitted, the file holds a table of the schema, and
  the dictionary mirrors it.
\<close>

definition consistente :: "Inventario \<Rightarrow> bool" where
  "consistente s \<longleftrightarrow>
     vista (conn s) = archivo (conn s) \<and> tabla_ok (archivo (conn s)) \<and>
     refleja (productos s) (archivo (conn s))"

section \<open>Containment up to case, as the specification words it\<close>




section \<open>Example states\<close>

text \<open>
  The inventory as \<open>main\<close> finds it on a first run, on an empty database file, and on a
  later run, on a file that holds the eight example rows; a product that is not among them,
  once with a valid quantity and once with a negative one; a short session of calls; and an
  inventory whose one product has the Greek name of four capital letters omicron, delta,
  omicron, sigma.

  \<open>unicode_ejemplo\<close> holds the entries of the Unicode character database for the code points
  below 256 and for the Greek letters U+0391 to U+03C9, which are the code points of the
  examples; its entries for other code points are not the database's.
\<close>

definition unicode_ejemplo :: unicode_data where
  "unicode_ejemplo =
     \<lparr>to_lower_full =
        (\<lambda>c. if (0x41 \<le> c \<and> c \<le> 0x5A) \<or> (0xC0 \<le> c \<and> c \<le> 0xDE \<and> c \<noteq> 0xD7) \<or>
                 (0x391 \<le> c \<and> c \<le> 0x3AB \<and> c \<noteq> 0x3A2)
              then [c + 32] else [c]),
      is_cased =
        (\<lambda>c. (0x41 \<le> c \<and> c \<le> 0x5A) \<or> (0x61 \<le> c \<and> c \<le> 0x7A) \<or> c = 0xAA \<or> c = 0xB5 \<or>
              c = 0xBA \<or> (0xC0 \<le> c \<and> c \<le> 0xFF \<and> c \<noteq> 0xD7 \<and> c \<noteq> 0xF7) \<or>
              (0x391 \<le> c \<and> c \<le> 0x3C9 \<and> c \<noteq> 0x3A2)),
      is_case_ignorable =
        (\<lambda>c. c \<in> set [0x27, 0x2E, 0x3A, 0x5E, 0x60, 0xA8, 0xAD, 0xAF, 0xB4, 0xB7, 0xB8])\<rparr>"



definition inventario_vacio :: Inventario where
  "inventario_vacio =
     \<lparr>conn = \<lparr>archivo = [], vista = [],
              historial = [PragmaForeignKeys, CreateTableIfNotExists, Commit, SelectOrderById]\<rparr>,
      productos = []\<rparr>"

definition producto_nuevo :: Producto where
  "producto_nuevo = \<lparr>id_producto = 109, nombre = texto ''Albahaca 50g'', cantidad = 25, precio = 0.75\<rparr>"

definition producto_negativo :: Producto where
  "producto_negativo = \<lparr>id_producto = 109, nombre = texto ''Albahaca 50g'', cantidad = - 1, precio = 0.75\<rparr>"

definition llamadas_ejemplo :: "llamada list" where
  "llamadas_ejemplo =
     [Agregar producto_nuevo, ActualizarCantidad 101 15, Eliminar 102, Buscar (texto ''harina''),
      ActualizarPrecio 103 (- 1)]"

definition inventario_neos :: Inventario where
  "inventario_neos =
     \<lparr>conn = \<lparr>archivo = ejemplos, vista = ejemplos,
              historial = [PragmaForeignKeys, CreateTableIfNotExists, Commit, SelectOrderById]\<rparr>,
      productos = map (\<lambda>p. (id_producto p, p)) ejemplos\<rparr>"

section \<open>Strings: containment and blank queries\<close>

lemma str_in_sublist: "str_in sub s \<longleftrightarrow> sublist sub s"
  by (induction s) (auto simp: sublist_Cons_right)

lemma lower_vacio: "lower u [] = []"
  by (simp add: lower_def)






lemma codificable_texto: "codificable (texto s)"
proof -
  have "(of_char c :: nat) < 0x110000 \<and> \<not> (0xD800 \<le> (of_char c :: nat))" for c
    using nat_of_char_less_256 [of c] by linarith
  then show ?thesis
    by (simp add: codificable_def texto_def list_all_iff)
qed

lemma codificable_append: "codificable (a @ b) \<longleftrightarrow> codificable a \<and> codificable b"
  by (simp add: codificable_def)

lemma codificable_Cons:
  "codificable (c # s) \<longleftrightarrow> c < 0x110000 \<and> \<not> (0xD800 \<le> c \<and> c \<le> 0xDFFF) \<and> codificable s"
  by (simp add: codificable_def)

lemma strip_solo_espacios: "\<forall>ch \<in> set q. isspace ch \<Longrightarrow> strip q = []"
proof -
  assume "\<forall>ch \<in> set q. isspace ch"
  then have "dropWhile isspace q = []"
    by (induction q) auto
  then show ?thesis
    unfolding strip_def by (simp only: rev.simps dropWhile.simps)
qed

lemma str_in_vacio: "str_in [] s"
  by (simp add: str_in_sublist)

section \<open>The dictionary as an association list\<close>

lemma update_nuevo: "k \<notin> set (map fst d) \<Longrightarrow> AList.update k v d = d @ [(k, v)]"
  by (induction d) auto

lemma update_presente:
  "distinct (map fst d) \<Longrightarrow> k \<in> set (map fst d) \<Longrightarrow>
   AList.update k v d = map (\<lambda>(k', x). if k' = k then (k', v) else (k', x)) d"
proof (induction d)
  case Nil
  then show ?case by simp
next
  case (Cons a d)
  show ?case
  proof (cases "fst a = k")
    case True
    with Cons.prems have "k \<notin> fst ` set d" by auto
    then have "map (\<lambda>(k', x). if k' = k then (k', v) else (k', x)) d = d"
      by (intro map_idI) force
    with True show ?thesis by (cases a) simp
  next
    case False
    with Cons show ?thesis by (cases a) auto
  qed
qed

lemma delete_filter: "AList.delete k d = filter (\<lambda>(k', x). k' \<noteq> k) d"
  by (induction d) auto

lemma update_campo:
  assumes "distinct (map fst d)" and "map_of d i = Some p"
  shows "AList.update i (u p) d = map (\<lambda>(k, x). if k = i then (k, u x) else (k, x)) d"
proof -
  from assms have en: "(i, p) \<in> set d"
    by (auto dest: map_of_SomeD)
  then have "i \<in> set (map fst d)" by force
  with assms(1) have "AList.update i (u p) d = map (\<lambda>(k, x). if k = i then (k, u p) else (k, x)) d"
    by (rule update_presente)
  moreover have "x = p" if "(i, x) \<in> set d" for x
    using assms(1) en that by (meson eq_key_imp_eq_value)
  then have "map (\<lambda>(k, x). if k = i then (k, u p) else (k, x)) d
      = map (\<lambda>(k, x). if k = i then (k, u x) else (k, x)) d"
    by (intro map_cong) auto
  ultimately show ?thesis by simp
qed

section \<open>The dictionary mirrors the table\<close>

lemma refleja_iff:
  "refleja d t \<longleftrightarrow> distinct (map fst d) \<and> (\<forall>k p. (k, p) \<in> set d \<longleftrightarrow> p \<in> set t \<and> id_producto p = k)"
  unfolding refleja_def by auto

lemma refleja_claves: "refleja d t \<Longrightarrow> set (map fst d) = set (map id_producto t)"
  unfolding refleja_def by (auto simp: image_iff)

lemma refleja_map_of:
  "refleja d t \<Longrightarrow> map_of d k = Some p \<longleftrightarrow> p \<in> set t \<and> id_producto p = k"
  unfolding refleja_iff by (auto dest: map_of_SomeD)

lemma producto_eta:
  "\<lparr>id_producto = id_producto p, nombre = nombre p, cantidad = cantidad p, precio = precio p\<rparr> = (p :: Producto)"
  by simp

lemma consistente_historial:
  "consistente (s\<lparr>conn := (conn s)\<lparr>historial := h\<rparr>\<rparr>) \<longleftrightarrow> consistente s"
  by (simp add: consistente_def)

lemma refleja_agregar:
  assumes "refleja d t" and "id_producto p \<notin> id_producto ` set t"
  shows "refleja (AList.update (id_producto p) p d) (t @ [p])"
proof -
  from refleja_claves [OF assms(1)] assms(2) have "id_producto p \<notin> set (map fst d)"
    by simp
  then have "AList.update (id_producto p) p d = d @ [(id_producto p, p)]"
    by (rule update_nuevo)
  with assms \<open>id_producto p \<notin> set (map fst d)\<close> show ?thesis
    by (auto simp: refleja_def)
qed

lemma refleja_eliminar:
  assumes "refleja d t"
  shows "refleja (AList.delete i d) (filter (\<lambda>r. id_producto r \<noteq> i) t)"
  using assms unfolding refleja_def delete_filter
  by (auto simp: distinct_map_filter)

lemma refleja_modificar:
  assumes "refleja d t" and "map_of d i = Some p" and "\<And>r. id_producto (u r) = id_producto r"
  shows "refleja (AList.update i (u p) d) (map (\<lambda>r. if id_producto r = i then u r else r) t)"
proof -
  from assms(1) have dist: "distinct (map fst d)"
    by (simp add: refleja_def)
  note upd = update_campo [OF dist assms(2), of u]
  have "map fst (map (\<lambda>(k, x). if k = i then (k, u x) else (k, x)) d) = map fst d"
    by (induction d) auto
  then have "distinct (map fst (AList.update i (u p) d))"
    unfolding upd using dist by (simp only:)
  moreover have "set (AList.update i (u p) d)
      = set (map (\<lambda>r. (id_producto r, r)) (map (\<lambda>r. if id_producto r = i then u r else r) t))"
  proof -
    have "set (AList.update i (u p) d) = (\<lambda>(k, x). if k = i then (k, u x) else (k, x)) ` set d"
      by (simp add: upd)
    also have "set d = (\<lambda>r. (id_producto r, r)) ` set t"
      using assms(1) by (simp add: refleja_def)
    also have "(\<lambda>(k, x). if k = i then (k, u x) else (k, x)) ` (\<lambda>r. (id_producto r, r)) ` set t
        = (\<lambda>r. (id_producto r, r)) ` (\<lambda>r. if id_producto r = i then u r else r) ` set t"
      unfolding image_image by (rule image_cong) (simp_all add: assms(3))
    finally show ?thesis by (simp only: set_map)
  qed
  ultimately show ?thesis
    by (simp add: refleja_def)
qed

lemma tabla_ok_modificar:
  assumes "tabla_ok t" and "\<And>r. id_producto (u r) = id_producto r"
    and "\<And>r. r \<in> set t \<Longrightarrow> cabe_int64 (cantidad (u r)) \<and> 0 \<le> cantidad (u r) \<and> 0 \<le> precio (u r)"
  shows "tabla_ok (map (\<lambda>r. if id_producto r = i then u r else r) t)"
proof -
  have "map id_producto (map (\<lambda>r. if id_producto r = i then u r else r) t) = map id_producto t"
    by (induction t) (auto simp: assms(2))
  with assms(1) have "distinct (map id_producto (map (\<lambda>r. if id_producto r = i then u r else r) t))"
    unfolding tabla_ok_def by (simp only:)
  moreover have "\<forall>r \<in> set (map (\<lambda>r. if id_producto r = i then u r else r) t).
      cabe_int64 (id_producto r) \<and> cabe_int64 (cantidad r) \<and> 0 \<le> cantidad r \<and> 0 \<le> precio r"
    using assms unfolding tabla_ok_def by auto
  ultimately show ?thesis
    unfolding tabla_ok_def by (rule conjI)
qed

lemma tabla_ok_filter: "tabla_ok t \<Longrightarrow> tabla_ok (filter P t)"
  unfolding tabla_ok_def by (auto simp: distinct_map_filter)

lemma consistente_agregar: "consistente s \<Longrightarrow> consistente (fst (agregar_producto s p))"
  unfolding agregar_producto_def existe_id_def dict_contains_def execute_def commit_def
    dict_setitem_def
  by (auto simp: consistente_def tabla_ok_def refleja_agregar producto_eta split: error.splits)

lemma consistente_eliminar: "consistente s \<Longrightarrow> consistente (fst (eliminar_producto s i))"
  unfolding eliminar_producto_def existe_id_def dict_contains_def execute_def commit_def
    dict_pop_def
  by (auto simp: consistente_def tabla_ok_filter refleja_eliminar)

lemma existe_id_fila:
  assumes "consistente s" and "existe_id s i"
  shows "i \<in> id_producto ` set (archivo (conn s))" and "\<exists>p. map_of (productos s) i = Some p"
    and "cabe_int64 i"
proof -
  from assms(1) have r: "refleja (productos s) (archivo (conn s))" and ok: "tabla_ok (archivo (conn s))"
    by (simp_all add: consistente_def)
  from assms(2) refleja_claves [OF r] show en: "i \<in> id_producto ` set (archivo (conn s))"
    by (simp add: existe_id_def dict_contains_def)
  then obtain r0 where "r0 \<in> set (archivo (conn s))" and "id_producto r0 = i"
    by auto
  with refleja_map_of [OF r, of i r0] show "\<exists>p. map_of (productos s) i = Some p"
    by blast
  from en ok show "cabe_int64 i"
    by (auto simp: tabla_ok_def)
qed

lemma actualizar_cantidad_exito:
  assumes "consistente s" and "existe_id s i" and "0 \<le> c" and "cabe_int64 c"
    and "map_of (productos s) i = Some p"
  shows "snd (actualizar_cantidad s i c) = Inr True"
    and "productos (fst (actualizar_cantidad s i c)) = AList.update i (p\<lparr>cantidad := c\<rparr>) (productos s)"
    and "archivo (conn (fst (actualizar_cantidad s i c)))
           = map (\<lambda>r. if id_producto r = i then r\<lparr>cantidad := c\<rparr> else r) (archivo (conn s))"
    and "vista (conn (fst (actualizar_cantidad s i c))) = archivo (conn (fst (actualizar_cantidad s i c)))"
    and "historial (conn (fst (actualizar_cantidad s i c))) = historial (conn s) @ [UpdateCantidad c i, Commit]"
  using assms existe_id_fila(3) [OF assms(1,2)]
  by (simp_all add: actualizar_cantidad_def execute_def commit_def dict_getitem_def
      dict_setitem_def set_cantidad_def consistente_def)

lemma actualizar_precio_exito:
  assumes "consistente s" and "existe_id s i" and "0 \<le> v"
    and "map_of (productos s) i = Some p"
  shows "snd (actualizar_precio s i v) = Inr True"
    and "productos (fst (actualizar_precio s i v)) = AList.update i (p\<lparr>precio := v\<rparr>) (productos s)"
    and "archivo (conn (fst (actualizar_precio s i v)))
           = map (\<lambda>r. if id_producto r = i then r\<lparr>precio := v\<rparr> else r) (archivo (conn s))"
    and "vista (conn (fst (actualizar_precio s i v))) = archivo (conn (fst (actualizar_precio s i v)))"
    and "historial (conn (fst (actualizar_precio s i v))) = historial (conn s) @ [UpdatePrecio v i, Commit]"
  using assms existe_id_fila(3) [OF assms(1,2)]
  by (simp_all add: actualizar_precio_def execute_def commit_def dict_getitem_def
      dict_setitem_def set_precio_def consistente_def)

lemma actualizar_cantidad_rechazo:
  assumes "consistente s" and "existe_id s i" and "\<not> (0 \<le> c \<and> cabe_int64 c)"
  shows "fst (actualizar_cantidad s i c)
           = s\<lparr>conn := (conn s)\<lparr>historial := historial (conn s) @ [UpdateCantidad c i]\<rparr>\<rparr>"
    and "snd (actualizar_cantidad s i c) = Inl (if cabe_int64 c then IntegrityError else OverflowError)"
  using assms existe_id_fila(1,3) [OF assms(1,2)]
  by (auto simp: actualizar_cantidad_def execute_def consistente_def)

lemma actualizar_precio_rechazo:
  assumes "consistente s" and "existe_id s i" and "v < 0"
  shows "fst (actualizar_precio s i v)
           = s\<lparr>conn := (conn s)\<lparr>historial := historial (conn s) @ [UpdatePrecio v i]\<rparr>\<rparr>"
    and "snd (actualizar_precio s i v) = Inl IntegrityError"
  using assms existe_id_fila(1,3) [OF assms(1,2)]
  by (auto simp: actualizar_precio_def execute_def consistente_def)

lemma consistente_actualizar_cantidad:
  assumes "consistente s"
  shows "consistente (fst (actualizar_cantidad s i c))"
proof (cases "existe_id s i")
  case False
  with assms show ?thesis by (simp add: actualizar_cantidad_def)
next
  case True
  let ?t = "archivo (conn s)"
  from assms have ok: "tabla_ok ?t" and r: "refleja (productos s) ?t"
    by (simp_all add: consistente_def)
  from existe_id_fila(2) [OF assms True] obtain p where p: "map_of (productos s) i = Some p" ..
  show ?thesis
  proof (cases "0 \<le> c \<and> cabe_int64 c")
    case False
    from actualizar_cantidad_rechazo(1) [OF assms True False] assms show ?thesis
      by (simp add: consistente_historial)
  next
    case bien: True
    have "tabla_ok (map (\<lambda>r. if id_producto r = i then r\<lparr>cantidad := c\<rparr> else r) ?t)"
      by (rule tabla_ok_modificar [where u = "\<lambda>r. r\<lparr>cantidad := c\<rparr>"])
        (use ok bien in \<open>auto simp: tabla_ok_def\<close>)
    moreover have "refleja (AList.update i (p\<lparr>cantidad := c\<rparr>) (productos s))
        (map (\<lambda>r. if id_producto r = i then r\<lparr>cantidad := c\<rparr> else r) ?t)"
      using refleja_modificar [OF r p, where u = "\<lambda>r. r\<lparr>cantidad := c\<rparr>"] by simp
    ultimately show ?thesis
      using actualizar_cantidad_exito(2-4) [OF assms True _ _ p] bien
      by (simp add: consistente_def)
  qed
qed

lemma consistente_actualizar_precio:
  assumes "consistente s"
  shows "consistente (fst (actualizar_precio s i v))"
proof (cases "existe_id s i")
  case False
  with assms show ?thesis by (simp add: actualizar_precio_def)
next
  case True
  let ?t = "archivo (conn s)"
  from assms have ok: "tabla_ok ?t" and r: "refleja (productos s) ?t"
    by (simp_all add: consistente_def)
  from existe_id_fila(2) [OF assms True] obtain p where p: "map_of (productos s) i = Some p" ..
  show ?thesis
  proof (cases "0 \<le> v")
    case False
    then have "v < 0" by simp
    from actualizar_precio_rechazo(1) [OF assms True this] assms show ?thesis
      by (simp add: consistente_historial)
  next
    case bien: True
    have "tabla_ok (map (\<lambda>r. if id_producto r = i then r\<lparr>precio := v\<rparr> else r) ?t)"
      by (rule tabla_ok_modificar [where u = "\<lambda>r. r\<lparr>precio := v\<rparr>"])
        (use ok bien in \<open>auto simp: tabla_ok_def\<close>)
    moreover have "refleja (AList.update i (p\<lparr>precio := v\<rparr>) (productos s))
        (map (\<lambda>r. if id_producto r = i then r\<lparr>precio := v\<rparr> else r) ?t)"
      using refleja_modificar [OF r p, where u = "\<lambda>r. r\<lparr>precio := v\<rparr>"] by simp
    ultimately show ?thesis
      using actualizar_precio_exito(2-4) [OF assms True bien p]
      by (simp add: consistente_def)
  qed
qed

lemma consistente_agregar_cada_uno:
  "consistente s \<Longrightarrow> consistente (fst (agregar_cada_uno s ps))"
proof (induction ps arbitrary: s)
  case Nil
  then show ?case by simp
next
  case (Cons p ps)
  from Cons.prems have c1: "consistente (fst (agregar_producto s p))"
    by (rule consistente_agregar)
  show ?case
  proof (cases "agregar_producto s p")
    case (Pair s1 res)
    with c1 Cons.IH [of s1] show ?thesis
      by (cases res) simp_all
  qed
qed

lemma consistente_cargar_ejemplo:
  "consistente s \<Longrightarrow> consistente (fst (cargar_ejemplo_neos s))"
  by (simp add: cargar_ejemplo_neos_def listar_todos_def consistente_agregar_cada_uno)

lemma consistente_llamar: "consistente s \<Longrightarrow> consistente (llamar u l s)"
  by (cases l)
    (simp_all add: consistente_agregar consistente_eliminar consistente_actualizar_cantidad
      consistente_actualizar_precio consistente_cargar_ejemplo buscar_por_nombre_def
      listar_todos_def)

lemma consistente_llamar_todas: "consistente s \<Longrightarrow> consistente (llamar_todas u ls s)"
  by (induction ls arbitrary: s) (simp_all add: consistente_llamar)

lemma cargar_fold:
  "distinct (map id_producto filas) \<Longrightarrow> set (map id_producto filas) \<inter> set (map fst d) = {} \<Longrightarrow>
   foldl (\<lambda>d p. AList.update (id_producto p) p d) d filas = d @ map (\<lambda>r. (id_producto r, r)) filas"
proof (induction filas arbitrary: d)
  case Nil
  then show ?case by simp
next
  case (Cons r filas)
  from Cons.prems have "id_producto r \<notin> set (map fst d)" by auto
  then have "AList.update (id_producto r) r d = d @ [(id_producto r, r)]"
    by (rule update_nuevo)
  moreover from Cons.prems
  have "set (map id_producto filas) \<inter> set (map fst (d @ [(id_producto r, r)])) = {}"
    by auto
  ultimately show ?case
    using Cons.IH [of "d @ [(id_producto r, r)]"] Cons.prems by simp
qed

lemma distinct_ordenadas:
  "distinct (map id_producto t) \<Longrightarrow> distinct (map id_producto (sort_key id_producto t))"
  by (simp add: distinct_map)

lemma Inventario_init_eq:
  assumes "tabla_ok t"
  shows "Inventario_init t =
     Inr \<lparr>conn = \<lparr>archivo = t, vista = t,
                  historial = [PragmaForeignKeys, CreateTableIfNotExists, Commit, SelectOrderById]\<rparr>,
          productos = map (\<lambda>r. (id_producto r, r)) (sort_key id_producto t)\<rparr>"
proof -
  from assms have "distinct (map id_producto (sort_key id_producto t))"
    by (simp add: tabla_ok_def distinct_ordenadas)
  from cargar_fold [OF this, of "[]"] show ?thesis
    by (simp add: Inventario_init_def execute_def connect_def crear_tabla_si_no_existe_def
        commit_def cargar_desde_bd_def dict_setitem_def)
qed

lemma refleja_ordenadas:
  assumes "tabla_ok t"
  shows "refleja (map (\<lambda>r. (id_producto r, r)) (sort_key id_producto t)) t"
proof -
  from assms have "distinct (map id_producto (sort_key id_producto t))"
    by (simp add: tabla_ok_def distinct_ordenadas)
  then show ?thesis
    by (simp add: refleja_def comp_def)
qed

lemma consistente_init:
  assumes "tabla_ok t" and "Inventario_init t = Inr s"
  shows "consistente s" and "archivo (conn s) = t"
    and "productos s = map (\<lambda>r. (id_producto r, r)) (sort_key id_producto t)"
  using assms Inventario_init_eq [OF assms(1)] refleja_ordenadas [OF assms(1)]
  by (auto simp: consistente_def)

lemma refleja_mismo_dict:
  assumes "refleja d t" and "refleja d' t"
  shows "map_of d = map_of d'"
  using assms by (simp add: refleja_def map_of_inject_set)

lemma agregar_exito:
  assumes "consistente s" and "\<not> existe_id s (id_producto p)"
    and "codificable (nombre p)"
    and "cabe_int64 (id_producto p)" and "cabe_int64 (cantidad p)"
    and "0 \<le> cantidad p" and "0 \<le> precio p"
  shows "snd (agregar_producto s p) = Inr True"
    and "productos (fst (agregar_producto s p)) = productos s @ [(id_producto p, p)]"
    and "archivo (conn (fst (agregar_producto s p))) = archivo (conn s) @ [p]"
proof -
  from assms(1) have r: "refleja (productos s) (archivo (conn s))"
    and v: "vista (conn s) = archivo (conn s)"
    by (simp_all add: consistente_def)
  from assms(2) have fuera: "id_producto p \<notin> set (map fst (productos s))"
    by (simp add: existe_id_def dict_contains_def)
  with refleja_claves [OF r] have "id_producto p \<notin> set (map id_producto (archivo (conn s)))"
    by simp
  with assms v show "snd (agregar_producto s p) = Inr True"
    and "archivo (conn (fst (agregar_producto s p))) = archivo (conn s) @ [p]"
    by (simp_all add: agregar_producto_def execute_def commit_def)
  from \<open>id_producto p \<notin> set (map id_producto (archivo (conn s)))\<close> assms v
  have "productos (fst (agregar_producto s p)) = AList.update (id_producto p) p (productos s)"
    by (simp add: agregar_producto_def execute_def commit_def dict_setitem_def)
  with update_nuevo [OF fuera]
  show "productos (fst (agregar_producto s p)) = productos s @ [(id_producto p, p)]"
    by simp
qed

lemma consistente_clave:
  "consistente s \<Longrightarrow> (k, p) \<in> set (productos s) \<Longrightarrow> id_producto p = k"
  by (auto simp: consistente_def refleja_def)











lemma map_campo_igual:
  assumes "refleja d t" and "map_of d i = Some p" and "f p = p"
  shows "map (\<lambda>(k, x). if k = i then (k, f x) else (k, x)) d = d"
    and "map (\<lambda>r. if id_producto r = i then f r else r) t = t"
proof -
  from assms(1) have dist: "distinct (map fst d)"
    by (simp add: refleja_def)
  from update_campo [OF dist assms(2), of f] assms(3) AList.update_triv [OF assms(2)]
  show "map (\<lambda>(k, x). if k = i then (k, f x) else (k, x)) d = d"
    by simp
  have "f r = r" if "r \<in> set t" and "id_producto r = i" for r
  proof -
    from that refleja_map_of [OF assms(1), of i r] have "map_of d i = Some r" by simp
    with assms(2,3) show ?thesis by simp
  qed
  then show "map (\<lambda>r. if id_producto r = i then f r else r) t = t"
    by (intro map_idI) simp
qed

lemma cargar_ejemplo_vacio:
  assumes "consistente s" and "productos s = []"
  shows "snd (cargar_ejemplo_neos s) = Inr ()"
    and "productos (fst (cargar_ejemplo_neos s)) = map (\<lambda>p. (id_producto p, p)) ejemplos"
    and "archivo (conn (fst (cargar_ejemplo_neos s))) = ejemplos"
proof -
  from assms have "archivo (conn s) = []" and "vista (conn s) = []"
    by (auto simp: consistente_def refleja_def)
  then have s: "s = \<lparr>conn = \<lparr>archivo = [], vista = [], historial = historial (conn s)\<rparr>, productos = []\<rparr>"
    using assms(2) by simp
  show "snd (cargar_ejemplo_neos s) = Inr ()"
    and "productos (fst (cargar_ejemplo_neos s)) = map (\<lambda>p. (id_producto p, p)) ejemplos"
    and "archivo (conn (fst (cargar_ejemplo_neos s))) = ejemplos"
    by (subst s, simp add: cargar_ejemplo_neos_def listar_todos_def dict_values_def ejemplos_def
        agregar_producto_def existe_id_def dict_contains_def execute_def commit_def
        dict_setitem_def cabe_int64_def codificable_texto codificable_append codificable_Cons)+
qed

section \<open>The example states are states of the program\<close>

lemma tabla_ok_ejemplos: "tabla_ok ejemplos"
  by code_simp

lemma Inventario_init_ejemplos: "Inventario_init ejemplos = Inr inventario_neos"
  by code_simp

lemma Inventario_init_vacio: "Inventario_init [] = Inr inventario_vacio"
  by code_simp


lemma consistente_neos: "consistente inventario_neos"
  by code_simp

lemma consistente_vacio: "consistente inventario_vacio"
  by code_simp

section \<open>The claims\<close>

text \<open>
  C1. Whatever table the database file holds when the inventory is opened, and whatever
  calls follow, the dictionary and the committed table agree afterwards: the dictionary has
  one entry per row, filed under the row's identifier, with the row's name, quantity and
  price, and nothing is left uncommitted. Hence closing the inventory and opening a new one
  on the same file gives a dictionary equal, as a mapping, to the one held before (the order
  of its entries, which is by identifier after a reload, apart).
\<close>

theorem dict_refleja_archivo:
  assumes "tabla_ok t" and "Inventario_init t = Inr s0"
  shows "refleja (productos (llamar_todas u ls s0)) (archivo (conn (llamar_todas u ls s0))) \<and>
         vista (conn (llamar_todas u ls s0)) = archivo (conn (llamar_todas u ls s0)) \<and>
         (\<exists>s'. Inventario_init (cerrar (llamar_todas u ls s0)) = Inr s' \<and>
               map_of (productos s') = map_of (productos (llamar_todas u ls s0)) \<and>
               archivo (conn s') = archivo (conn (llamar_todas u ls s0)))"
proof -
  let ?s = "llamar_todas u ls s0"
  from consistente_init(1) [OF assms] have c: "consistente ?s"
    by (rule consistente_llamar_todas)
  then have ok: "tabla_ok (archivo (conn ?s))" and r: "refleja (productos ?s) (archivo (conn ?s))"
    and v: "vista (conn ?s) = archivo (conn ?s)"
    by (simp_all add: consistente_def)
  let ?s' = "\<lparr>conn = \<lparr>archivo = archivo (conn ?s), vista = archivo (conn ?s),
                        historial = [PragmaForeignKeys, CreateTableIfNotExists, Commit, SelectOrderById]\<rparr>,
               productos = map (\<lambda>r. (id_producto r, r)) (sort_key id_producto (archivo (conn ?s)))\<rparr>"
  have "Inventario_init (cerrar ?s) = Inr ?s'"
    unfolding cerrar_def by (rule Inventario_init_eq [OF ok])
  moreover have "map_of (productos ?s') = map_of (productos ?s)"
    using refleja_mismo_dict [OF refleja_ordenadas [OF ok] r] by simp
  ultimately have "\<exists>s'. Inventario_init (cerrar ?s) = Inr s' \<and>
      map_of (productos s') = map_of (productos ?s) \<and> archivo (conn s') = archivo (conn ?s)"
    by (intro exI [of _ ?s']) simp
  with r v show ?thesis by simp
qed

theorem dict_refleja_archivo_witness:
  "tabla_ok ejemplos \<and> Inventario_init ejemplos = Inr inventario_neos \<and>
   refleja (productos (llamar_todas unicode_ejemplo llamadas_ejemplo inventario_neos))
     (archivo (conn (llamar_todas unicode_ejemplo llamadas_ejemplo inventario_neos))) \<and>
   vista (conn (llamar_todas unicode_ejemplo llamadas_ejemplo inventario_neos))
     = archivo (conn (llamar_todas unicode_ejemplo llamadas_ejemplo inventario_neos)) \<and>
   (\<exists>s'. Inventario_init (cerrar (llamar_todas unicode_ejemplo llamadas_ejemplo inventario_neos)) = Inr s' \<and>
         map_of (productos s') = map_of (productos (llamar_todas unicode_ejemplo llamadas_ejemplo inventario_neos)) \<and>
         archivo (conn s') = archivo (conn (llamar_todas unicode_ejemplo llamadas_ejemplo inventario_neos)))"
  using dict_refleja_archivo [OF tabla_ok_ejemplos Inventario_init_ejemplos,
      of unicode_ejemplo llamadas_ejemplo]
    tabla_ok_ejemplos Inventario_init_ejemplos
  by simp

text \<open>
  C2. Every expected failure should come back as \<open>False\<close>, a constraint violation of the
  table included, as \<open>agregar_producto\<close> does with its \<open>except sqlite3.IntegrityError\<close>.
  \<open>actualizar_cantidad\<close> and \<open>actualizar_precio\<close> have no such handler: on the inventory
  of the eight examples, a negative quantity or price for product 101 leaves the method as
  an \<open>IntegrityError\<close>, where a negative quantity given to \<open>agregar_producto\<close> returns
  \<open>False\<close>.
\<close>

theorem actualizar_lanza_integrity_error:
  "Inventario_init ejemplos = Inr inventario_neos \<and>
   snd (actualizar_cantidad inventario_neos 101 (- 1)) = Inl IntegrityError \<and>
   snd (actualizar_precio inventario_neos 101 (- 1)) = Inl IntegrityError \<and>
   snd (agregar_producto inventario_neos producto_negativo) = Inr False"
  by code_simp

text \<open>
  C3, as stated, fails: a product whose identifier is new but whose quantity is negative
  is refused by the table's CHECK constraint, \<open>agregar_producto\<close> returns \<open>False\<close> and the
  listing is as before.
\<close>

theorem agregar_producto_nuevo_counterexample:
  "consistente inventario_neos \<and> \<not> existe_id inventario_neos (id_producto producto_negativo) \<and>
   snd (agregar_producto inventario_neos producto_negativo) = Inr False \<and>
   snd (listar_todos (fst (agregar_producto inventario_neos producto_negativo))) = ejemplos"
  by code_simp

text \<open>
  C3, amended. For a product whose identifier is not in the inventory, whose name has a
  UTF-8 encoding, whose identifier and quantity are 64-bit integers and whose quantity and
  price are not negative, \<open>agregar_producto\<close> returns \<open>True\<close>, and \<open>listar_todos\<close>
  afterwards holds exactly one product with that identifier, which is the product given.
\<close>

theorem agregar_producto_nuevo:
  assumes "consistente s" and "\<not> existe_id s (id_producto p)"
    and "codificable (nombre p)"
    and "cabe_int64 (id_producto p)" and "cabe_int64 (cantidad p)"
    and "0 \<le> cantidad p" and "0 \<le> precio p"
  shows "snd (agregar_producto s p) = Inr True \<and>
         filter (\<lambda>x. id_producto x = id_producto p)
           (snd (listar_todos (fst (agregar_producto s p)))) = [p]"
proof -
  from assms(2) have "\<forall>x \<in> set (productos s). id_producto (snd x) \<noteq> id_producto p"
    using consistente_clave [OF assms(1)]
    by (force simp: existe_id_def dict_contains_def)
  then have "filter (\<lambda>x. id_producto x = id_producto p) (map snd (productos s)) = []"
    by (auto simp: filter_empty_conv)
  with agregar_exito(1,2) [OF assms] show ?thesis
    by (simp add: listar_todos_def dict_values_def)
qed

theorem agregar_producto_nuevo_witness:
  "consistente inventario_neos \<and> \<not> existe_id inventario_neos (id_producto producto_nuevo) \<and>
   codificable (nombre producto_nuevo) \<and>
   cabe_int64 (id_producto producto_nuevo) \<and> cabe_int64 (cantidad producto_nuevo) \<and>
   0 \<le> cantidad producto_nuevo \<and> 0 \<le> precio producto_nuevo \<and>
   snd (agregar_producto inventario_neos producto_nuevo) = Inr True \<and>
   filter (\<lambda>x. id_producto x = id_producto producto_nuevo)
     (snd (listar_todos (fst (agregar_producto inventario_neos producto_nuevo)))) = [producto_nuevo]"
proof -
  have h: "consistente inventario_neos" "\<not> existe_id inventario_neos (id_producto producto_nuevo)"
    "codificable (nombre producto_nuevo)"
    "cabe_int64 (id_producto producto_nuevo)" "cabe_int64 (cantidad producto_nuevo)"
    "0 \<le> cantidad producto_nuevo" "0 \<le> precio producto_nuevo"
    by code_simp+
  from agregar_producto_nuevo [OF h] h show ?thesis by simp
qed

text \<open>
  C4. Adding a product whose identifier is already in the inventory returns \<open>False\<close> and
  leaves the whole object as it was: the dictionary, the table, and the record of calls
  made on the connection, so that no statement was issued.
\<close>

theorem agregar_producto_duplicado:
  "existe_id s (id_producto p) \<Longrightarrow> agregar_producto s p = (s, Inr False)"
  by (simp add: agregar_producto_def)

theorem agregar_producto_duplicado_witness:
  "existe_id inventario_neos (id_producto (producto_nuevo\<lparr>id_producto := 101\<rparr>)) \<and>
   agregar_producto inventario_neos (producto_nuevo\<lparr>id_producto := 101\<rparr>)
     = (inventario_neos, Inr False)"
proof -
  have h: "existe_id inventario_neos (id_producto (producto_nuevo\<lparr>id_producto := 101\<rparr>))"
    by code_simp
  from agregar_producto_duplicado [OF h] h show ?thesis by simp
qed

text \<open>
  C5, as stated, fails: for the present identifier 101 and the quantity \<open>-1\<close> the quantity
  is not set; the table refuses the value and product 101 keeps its quantity of 20 in the
  dictionary and in the table.
\<close>

theorem actualizar_un_campo_counterexample:
  "existe_id inventario_neos 101 \<and>
   snd (actualizar_cantidad inventario_neos 101 (- 1)) = Inl IntegrityError \<and>
   map_of (productos (fst (actualizar_cantidad inventario_neos 101 (- 1)))) 101
     = Some \<lparr>id_producto = 101, nombre = texto ''Harina 1kg'', cantidad = 20, precio = 2.50\<rparr> \<and>
   archivo (conn (fst (actualizar_cantidad inventario_neos 101 (- 1)))) = ejemplos"
  by code_simp

text \<open>
  C5, amended. For a present identifier and any quantity, \<open>actualizar_cantidad\<close> changes
  nothing but the quantity of that product, in the dictionary and in the table: every other
  entry and row, and the name, price and identifier of the product itself, stay as they
  were; when the quantity is not negative and fits in 64 bits, the call returns \<open>True\<close>
  and the quantity of the product is the one given. \<open>actualizar_precio\<close> does the same for
  the price, for any price, with \<open>True\<close> and the price given when it is not negative. For
  an absent identifier both return \<open>False\<close> and leave the object unchanged.
\<close>

theorem actualizar_un_campo:
  assumes "consistente s"
  shows "(existe_id s i \<longrightarrow>
            (\<exists>q'. productos (fst (actualizar_cantidad s i q))
                    = map (\<lambda>(k, x). if k = i then (k, x\<lparr>cantidad := q'\<rparr>) else (k, x)) (productos s) \<and>
                  archivo (conn (fst (actualizar_cantidad s i q)))
                    = map (\<lambda>r. if id_producto r = i then r\<lparr>cantidad := q'\<rparr> else r)
                        (archivo (conn s)) \<and>
                  (0 \<le> q \<and> cabe_int64 q \<longrightarrow>
                     q' = q \<and> snd (actualizar_cantidad s i q) = Inr True)) \<and>
            (\<exists>v'. productos (fst (actualizar_precio s i v))
                    = map (\<lambda>(k, x). if k = i then (k, x\<lparr>precio := v'\<rparr>) else (k, x)) (productos s) \<and>
                  archivo (conn (fst (actualizar_precio s i v)))
                    = map (\<lambda>r. if id_producto r = i then r\<lparr>precio := v'\<rparr> else r)
                        (archivo (conn s)) \<and>
                  (0 \<le> v \<longrightarrow> v' = v \<and> snd (actualizar_precio s i v) = Inr True))) \<and>
         (\<not> existe_id s i \<longrightarrow>
            actualizar_cantidad s i q = (s, Inr False) \<and> actualizar_precio s i v = (s, Inr False))"
proof (cases "existe_id s i")
  case False
  then show ?thesis
    by (simp add: actualizar_cantidad_def actualizar_precio_def)
next
  case True
  from assms have r: "refleja (productos s) (archivo (conn s))"
    by (simp add: consistente_def)
  then have d: "distinct (map fst (productos s))"
    by (simp add: refleja_def)
  from existe_id_fila(2) [OF assms True] obtain p where p: "map_of (productos s) i = Some p" ..
  have "\<exists>q'. productos (fst (actualizar_cantidad s i q))
                = map (\<lambda>(k, x). if k = i then (k, x\<lparr>cantidad := q'\<rparr>) else (k, x)) (productos s) \<and>
              archivo (conn (fst (actualizar_cantidad s i q)))
                = map (\<lambda>r. if id_producto r = i then r\<lparr>cantidad := q'\<rparr> else r) (archivo (conn s)) \<and>
              (0 \<le> q \<and> cabe_int64 q \<longrightarrow> q' = q \<and> snd (actualizar_cantidad s i q) = Inr True)"
  proof (cases "0 \<le> q \<and> cabe_int64 q")
    case bien: True
    then have "0 \<le> q" and "cabe_int64 q" by simp_all
    from actualizar_cantidad_exito(1-3) [OF assms True this p]
      update_campo [OF d p, of "\<lambda>x. x\<lparr>cantidad := q\<rparr>"]
    show ?thesis
      by (intro exI [of _ q]) simp
  next
    case False
    from actualizar_cantidad_rechazo(1) [OF assms True False]
      map_campo_igual [OF r p, of "\<lambda>x. x\<lparr>cantidad := cantidad p\<rparr>"] False
    show ?thesis
      by (intro exI [of _ "cantidad p"]) auto
  qed
  moreover
  have "\<exists>v'. productos (fst (actualizar_precio s i v))
                = map (\<lambda>(k, x). if k = i then (k, x\<lparr>precio := v'\<rparr>) else (k, x)) (productos s) \<and>
              archivo (conn (fst (actualizar_precio s i v)))
                = map (\<lambda>r. if id_producto r = i then r\<lparr>precio := v'\<rparr> else r) (archivo (conn s)) \<and>
              (0 \<le> v \<longrightarrow> v' = v \<and> snd (actualizar_precio s i v) = Inr True)"
  proof (cases "0 \<le> v")
    case bien: True
    from actualizar_precio_exito(1-3) [OF assms True bien p]
      update_campo [OF d p, of "\<lambda>x. x\<lparr>precio := v\<rparr>"]
    show ?thesis
      by (intro exI [of _ v]) simp
  next
    case False
    then have "v < 0" by simp
    from actualizar_precio_rechazo(1) [OF assms True this]
      map_campo_igual [OF r p, of "\<lambda>x. x\<lparr>precio := precio p\<rparr>"] False
    show ?thesis
      by (intro exI [of _ "precio p"]) auto
  qed
  ultimately show ?thesis
    using True by blast
qed

theorem actualizar_un_campo_witness:
  "consistente inventario_neos \<and> existe_id inventario_neos 101 \<and> (0::int) \<le> 15 \<and> cabe_int64 15 \<and>
   (0::real) \<le> 2.75 \<and>
   snd (actualizar_cantidad inventario_neos 101 15) = Inr True \<and>
   productos (fst (actualizar_cantidad inventario_neos 101 15))
     = map (\<lambda>(k, x). if k = 101 then (k, x\<lparr>cantidad := 15\<rparr>) else (k, x)) (productos inventario_neos) \<and>
   snd (actualizar_precio inventario_neos 101 2.75) = Inr True \<and>
   archivo (conn (fst (actualizar_precio inventario_neos 101 2.75)))
     = map (\<lambda>r. if id_producto r = 101 then r\<lparr>precio := 2.75\<rparr> else r)
         (archivo (conn inventario_neos)) \<and>
   (\<exists>q'. productos (fst (actualizar_cantidad inventario_neos 101 (- 1)))
           = map (\<lambda>(k, x). if k = 101 then (k, x\<lparr>cantidad := q'\<rparr>) else (k, x))
               (productos inventario_neos) \<and>
         archivo (conn (fst (actualizar_cantidad inventario_neos 101 (- 1))))
           = map (\<lambda>r. if id_producto r = 101 then r\<lparr>cantidad := q'\<rparr> else r)
               (archivo (conn inventario_neos))) \<and>
   \<not> existe_id inventario_neos 999 \<and>
   actualizar_cantidad inventario_neos 999 15 = (inventario_neos, Inr False) \<and>
   actualizar_precio inventario_neos 999 2.75 = (inventario_neos, Inr False)"
proof -
  have h: "consistente inventario_neos" "existe_id inventario_neos 101" "cabe_int64 15"
    "\<not> existe_id inventario_neos 999"
    by code_simp+
  from actualizar_un_campo [OF h(1), of 101 15 "2.75"] h
  have "snd (actualizar_cantidad inventario_neos 101 15) = Inr True \<and>
    productos (fst (actualizar_cantidad inventario_neos 101 15))
     = map (\<lambda>(k, x). if k = 101 then (k, x\<lparr>cantidad := 15\<rparr>) else (k, x)) (productos inventario_neos) \<and>
    snd (actualizar_precio inventario_neos 101 2.75) = Inr True \<and>
    archivo (conn (fst (actualizar_precio inventario_neos 101 2.75)))
     = map (\<lambda>r. if id_producto r = 101 then r\<lparr>precio := 2.75\<rparr> else r)
         (archivo (conn inventario_neos))"
    by auto
  moreover from actualizar_un_campo [OF h(1), of 101 "- 1" "2.75"] h
  have "\<exists>q'. productos (fst (actualizar_cantidad inventario_neos 101 (- 1)))
           = map (\<lambda>(k, x). if k = 101 then (k, x\<lparr>cantidad := q'\<rparr>) else (k, x))
               (productos inventario_neos) \<and>
         archivo (conn (fst (actualizar_cantidad inventario_neos 101 (- 1))))
           = map (\<lambda>r. if id_producto r = 101 then r\<lparr>cantidad := q'\<rparr> else r)
               (archivo (conn inventario_neos))"
    by blast
  moreover from actualizar_un_campo [OF h(1), of 999 15 "2.75"] h
  have "actualizar_cantidad inventario_neos 999 15 = (inventario_neos, Inr False) \<and>
    actualizar_precio inventario_neos 999 2.75 = (inventario_neos, Inr False)"
    by blast
  ultimately show ?thesis
    using h by simp
qed






text \<open>
  C8. \<open>cargar_ejemplo_neos\<close> changes nothing when the inventory holds a product. On an
  empty inventory it ends normally, and the inventory and the table then hold exactly the
  example products, which are eight, with eight different identifiers.
\<close>

theorem cargar_ejemplo_neos_spec:
  assumes "consistente s"
  shows "(snd (listar_todos s) \<noteq> [] \<longrightarrow> cargar_ejemplo_neos s = (s, Inr ())) \<and>
         (snd (listar_todos s) = [] \<longrightarrow>
            snd (cargar_ejemplo_neos s) = Inr () \<and>
            snd (listar_todos (fst (cargar_ejemplo_neos s))) = ejemplos \<and>
            archivo (conn (fst (cargar_ejemplo_neos s))) = ejemplos \<and>
            length ejemplos = 8 \<and> distinct (map id_producto ejemplos))"
proof -
  have "length ejemplos = 8" and "distinct (map id_producto ejemplos)"
    by (simp_all add: ejemplos_def)
  moreover have "map snd (map (\<lambda>p. (id_producto p, p)) ejemplos) = ejemplos"
    by (simp add: comp_def)
  ultimately show ?thesis
    using cargar_ejemplo_vacio [OF assms]
    by (auto simp: cargar_ejemplo_neos_def listar_todos_def dict_values_def)
qed

theorem cargar_ejemplo_neos_spec_witness:
  "consistente inventario_neos \<and> snd (listar_todos inventario_neos) \<noteq> [] \<and>
   cargar_ejemplo_neos inventario_neos = (inventario_neos, Inr ()) \<and>
   consistente inventario_vacio \<and> snd (listar_todos inventario_vacio) = [] \<and>
   snd (cargar_ejemplo_neos inventario_vacio) = Inr () \<and>
   snd (listar_todos (fst (cargar_ejemplo_neos inventario_vacio))) = ejemplos \<and>
   archivo (conn (fst (cargar_ejemplo_neos inventario_vacio))) = ejemplos"
proof -
  have h: "consistente inventario_neos" "snd (listar_todos inventario_neos) \<noteq> []"
    "consistente inventario_vacio" "snd (listar_todos inventario_vacio) = []"
    by code_simp+
  from cargar_ejemplo_neos_spec [OF h(1)] cargar_ejemplo_neos_spec [OF h(3)] h
  show ?thesis by simp
qed

text \<open>
  C9. A query that is empty or made of whitespace only returns every product of the
  inventory.
\<close>

theorem buscar_en_blanco:
  "\<forall>ch \<in> set q. isspace ch \<Longrightarrow> snd (buscar_por_nombre u s q) = snd (listar_todos s)"
  by (simp add: buscar_por_nombre_def listar_todos_def strip_solo_espacios lower_vacio str_in_vacio)

theorem buscar_en_blanco_witness:
  "list_all isspace [0x20, 0x09] \<and>
   snd (buscar_por_nombre unicode_ejemplo inventario_neos [0x20, 0x09])
     = snd (listar_todos inventario_neos) \<and>
   snd (buscar_por_nombre unicode_ejemplo inventario_neos []) = snd (listar_todos inventario_neos)"
proof -
  have h: "list_all isspace [0x20, 0x09]"
    by code_simp
  then have "\<forall>ch \<in> set [0x20, 0x09]. isspace ch"
    by (simp only: list_all_iff)
  from buscar_en_blanco [OF this, of unicode_ejemplo inventario_neos]
    buscar_en_blanco [of "[]" unicode_ejemplo inventario_neos] h
  show ?thesis by simp
qed

text \<open>
  C10. \<open>buscar_por_nombre\<close> and \<open>listar_todos\<close> return the object as they received it:
  the same dictionary, the same table, and the same record of calls on the connection, so
  that neither issues a statement.
\<close>

theorem consultas_no_modifican:
  "fst (buscar_por_nombre u s q) = s \<and> fst (listar_todos s) = s \<and>
   historial (conn (fst (buscar_por_nombre u s q))) = historial (conn s) \<and>
   historial (conn (fst (listar_todos s))) = historial (conn s)"
  by (simp add: buscar_por_nombre_def listar_todos_def)

theorem consultas_no_modifican_witness:
  "fst (buscar_por_nombre unicode_ejemplo inventario_neos (texto ''queso'')) = inventario_neos \<and>
   fst (listar_todos inventario_neos) = inventario_neos"
  using consultas_no_modifican [of unicode_ejemplo inventario_neos "texto ''queso''"] by simp

end
